theory Spec2Isabelle
  imports Main "HOL-Library.AList" "HOL-Library.Char_ord" "HOL-Library.List_Lexorder"
    "HOL-Library.Sublist"
begin

section \<open>JavaScript values\<close>

text \<open>
  The values a template sees are the caller's variable bindings: JSON-like trees, plus
  \<open>undefined\<close>. Numbers are the integer-valued ones; an object is the list of its own
  enumerable properties in insertion order, with distinct keys. Every \<open>Arr\<close> and \<open>Obj\<close>
  node stands for an object of its own: no two places of a tree share one object.
  Strings are ASCII text.
\<close>

datatype jsval =
    Undefined
  | Null
  | Bool bool
  | Num int
  | Str string
  | Arr "jsval list"
  | Obj "(string \<times> jsval) list"

text \<open>
  What a call can throw: a TypeError of the language, the engine's parse error and its
  error for an undefined variable under \<open>strictVariables\<close>. Two more outcomes belong to
  the embedding: \<open>Unsupported\<close> marks a step that values without references cannot
  show, \<open>OutOfFuel\<close> a parse cut short by its bound.
\<close>

datatype jserror =
    TypeError string
  | ParseError string
  | UndefinedVariableError string
  | Unsupported string
  | OutOfFuel

type_synonym 'a result = "jserror + 'a"

subsection \<open>Primitive operations of the language\<close>

definition digit_char :: "nat \<Rightarrow> char" where
  "digit_char d = char_of (of_char CHR ''0'' + d)"

function string_of_nat :: "nat \<Rightarrow> string" where
  "string_of_nat n = (if n < 10 then [digit_char n] else string_of_nat (n div 10) @ [digit_char (n mod 10)])"
  by pat_completeness auto
termination
  by (relation "measure id") auto

definition string_of_int :: "int \<Rightarrow> string" where
  "string_of_int i = (if i < 0 then CHR ''-'' # string_of_nat (nat (- i)) else string_of_nat (nat i))"

text \<open>\<open>xs.join(sep)\<close> on strings already converted.\<close>

fun join_strings :: "string \<Rightarrow> string list \<Rightarrow> string" where
  "join_strings sep [] = []"
| "join_strings sep [x] = x"
| "join_strings sep (x # y # ys) = x @ sep @ join_strings sep (y # ys)"

text \<open>Collects the results of a list of fallible steps; the first error wins.\<close>

fun sequence :: "'a result list \<Rightarrow> 'a list result" where
  "sequence [] = Inr []"
| "sequence (Inl e # rs) = Inl e"
| "sequence (Inr x # rs) = (case sequence rs of Inl e \<Rightarrow> Inl e | Inr xs \<Rightarrow> Inr (x # xs))"

text \<open>
  \<open>String(v)\<close>, which is also what \<open>'' + v\<close> and a template literal compute on these
  values. An array joins its elements with a comma, \<open>null\<close> and \<open>undefined\<close> elements as
  the empty string. An object answers through \<open>Object.prototype.toString\<close> unless it
  has an own property \<open>toString\<close>: that property is data, not a function, the
  conversion falls through to \<open>valueOf\<close>, which gives back the object, and a
  TypeError is thrown.
\<close>

fun String :: "jsval \<Rightarrow> string result"
  and String_element :: "jsval \<Rightarrow> string result"
  and String_elements :: "jsval list \<Rightarrow> string list result" where
  "String Undefined = Inr ''undefined''"
| "String Null = Inr ''null''"
| "String (Bool b) = Inr (if b then ''true'' else ''false'')"
| "String (Num i) = Inr (string_of_int i)"
| "String (Str s) = Inr s"
| "String (Arr xs) = (case String_elements xs of Inl e \<Rightarrow> Inl e | Inr ss \<Rightarrow> Inr (join_strings '','' ss))"
| "String (Obj kvs) =
     (if ''toString'' \<in> fst ` set kvs then Inl (TypeError ''Cannot convert object to primitive value'')
      else Inr ''[object Object]'')"
| "String_element v = (if v = Undefined \<or> v = Null then Inr [] else String v)"
| "String_elements [] = Inr []"
| "String_elements (v # vs) =
     (case String_element v of Inl e \<Rightarrow> Inl e
      | Inr s \<Rightarrow> (case String_elements vs of Inl e \<Rightarrow> Inl e | Inr ss \<Rightarrow> Inr (s # ss)))"

text \<open>\<open>arr.join(sep)\<close>: the separator is converted first, then the elements.\<close>

definition Array_join :: "jsval list \<Rightarrow> jsval \<Rightarrow> string result" where
  "Array_join xs sep =
     (case (if sep = Undefined then Inr '','' else String sep) of Inl e \<Rightarrow> Inl e
      | Inr s \<Rightarrow> (case String_elements xs of Inl e \<Rightarrow> Inl e | Inr ss \<Rightarrow> Inr (join_strings s ss)))"

text \<open>\<open>Boolean(v)\<close>.\<close>

fun truthy :: "jsval \<Rightarrow> bool" where
  "truthy Undefined = False"
| "truthy Null = False"
| "truthy (Bool b) = b"
| "truthy (Num i) = (i \<noteq> 0)"
| "truthy (Str s) = (s \<noteq> [])"
| "truthy (Arr xs) = True"
| "truthy (Obj kvs) = True"

fun isPrimitive :: "jsval \<Rightarrow> bool" where
  "isPrimitive (Arr xs) = False"
| "isPrimitive (Obj kvs) = False"
| "isPrimitive v = True"

definition toUpperCase :: "string \<Rightarrow> string" where
  "toUpperCase s = map (\<lambda>c. if CHR ''a'' \<le> c \<and> c \<le> CHR ''z'' then char_of (of_char c - (32::nat)) else c) s"

definition toLowerCase :: "string \<Rightarrow> string" where
  "toLowerCase s = map (\<lambda>c. if CHR ''A'' \<le> c \<and> c \<le> CHR ''Z'' then char_of (of_char c + (32::nat)) else c) s"

definition isSpace :: "char \<Rightarrow> bool" where
  "isSpace c = (c \<in> {CHR '' '', CHR 0x09, CHR 0x0A, CHR 0x0B, CHR 0x0C, CHR 0x0D})"

definition trim :: "string \<Rightarrow> string" where
  "trim s = rev (dropWhile isSpace (rev (dropWhile isSpace s)))"

text \<open>\<open>s.split(',')\<close>: never empty, the empty string splits into one empty piece.\<close>

fun split_comma :: "string \<Rightarrow> string list" where
  "split_comma [] = [[]]"
| "split_comma (c # cs) =
     (if c = CHR '','' then [] # split_comma cs
      else (case split_comma cs of [] \<Rightarrow> [[c]] | p # ps \<Rightarrow> (c # p) # ps))"

text \<open>
  \<open>Array.from(new Set(arr))\<close>: the first occurrence of each value, in order. Primitives
  are the same value when they are equal; every array or object element is an object of
  its own and is kept.
\<close>

fun Set_values :: "jsval list \<Rightarrow> jsval list \<Rightarrow> jsval list" where
  "Set_values seen [] = []"
| "Set_values seen (x # xs) =
     (if isPrimitive x \<and> x \<in> set seen then Set_values seen xs else x # Set_values (x # seen) xs)"

text \<open>
  \<open>[...arr].sort()\<close> with the default comparison: \<open>undefined\<close> elements go last, the
  others are ordered by their string forms, stably. With fewer than two such elements
  nothing is compared and nothing is converted.
\<close>

definition Array_sort :: "jsval list \<Rightarrow> jsval list result" where
  "Array_sort xs =
     (let defined = filter (\<lambda>x. x \<noteq> Undefined) xs;
          undefineds = filter (\<lambda>x. x = Undefined) xs
      in if length defined < 2 then Inr (defined @ undefineds)
         else (case sequence (map String defined) of Inl e \<Rightarrow> Inl e
               | Inr keys \<Rightarrow> Inr (map snd (sort_key fst (zip keys defined)) @ undefineds)))"

section \<open>The filters registered by the TemplateParser constructor\<close>

text \<open>
  A filter receives the value piped into it and the evaluated arguments; a parameter
  that was not passed is \<open>undefined\<close>.
\<close>

type_synonym filter_impl = "jsval \<Rightarrow> jsval list \<Rightarrow> jsval result"

definition arg :: "jsval list \<Rightarrow> nat \<Rightarrow> jsval" where
  "arg args i = (if i < length args then args ! i else Undefined)"

text \<open>\<open>v ?? ''\<close>\<close>

definition nullish_empty :: "jsval \<Rightarrow> jsval" where
  "nullish_empty v = (if v = Undefined \<or> v = Null then Str [] else v)"

definition filter_join :: filter_impl where
  "filter_join arr args =
     (let sep = (if arg args 0 = Undefined then Str '', '' else arg args 0)
      in case arr of
           Arr xs \<Rightarrow> map_sum id Str (Array_join xs sep)
         | _ \<Rightarrow> map_sum id Str (String (nullish_empty arr)))"

definition filter_uniq :: filter_impl where
  "filter_uniq arr args = (case arr of Arr xs \<Rightarrow> Inr (Arr (Set_values [] xs)) | _ \<Rightarrow> Inr arr)"

definition filter_default :: filter_impl where
  "filter_default val args =
     (if val = Undefined \<or> val = Null \<or> val = Str [] then Inr (arg args 0) else Inr val)"

definition filter_length :: filter_impl where
  "filter_length v args =
     (case v of
        Arr xs \<Rightarrow> Inr (Num (int (length xs)))
      | Str s \<Rightarrow> Inr (Num (int (length s)))
      | Obj kvs \<Rightarrow> Inr (Num (int (length kvs)))
      | _ \<Rightarrow> Inr (Num 0))"

definition filter_lower :: filter_impl where
  "filter_lower s args = map_sum id (\<lambda>t. Str (toLowerCase t)) (String (nullish_empty s))"

definition filter_upper :: filter_impl where
  "filter_upper s args = map_sum id (\<lambda>t. Str (toUpperCase t)) (String (nullish_empty s))"

definition filter_compact :: filter_impl where
  "filter_compact arr args = (case arr of Arr xs \<Rightarrow> Inr (Arr (filter truthy xs)) | _ \<Rightarrow> Inr arr)"

definition filter_sort :: filter_impl where
  "filter_sort arr args = (case arr of Arr xs \<Rightarrow> map_sum id Arr (Array_sort xs) | _ \<Rightarrow> Inr arr)"

section \<open>The template engine\<close>

text \<open>
  The tokenizer, the parser's token loop, the evaluation context, the renderer's loop
  and the two built-in tags \<open>assign\<close> and \<open>capture\<close> belong to the liquidjs library the
  TemplateParser is built on. They are embedded here as far as the TemplateParser's own
  tags, filters and entry points use them. A template is given as the token list that
  the tokenizer yields for its text.
\<close>

subsection \<open>Expressions and filtered values\<close>

text \<open>
  A \<open>Value\<close> is an initial expression, a literal or a variable name, and a chain of
  filter calls with their argument expressions.
\<close>

datatype expr = Literal jsval | Variable string

datatype Value = Value expr "(string \<times> expr list) list"

record liquid_options =
  cache :: bool
  jsTruthy :: bool
  strictVariables :: bool
  strictFilters :: bool

text \<open>The library's defaults for the options the constructor can pass.\<close>

definition defaultOptions :: liquid_options where
  "defaultOptions = \<lparr>cache = False, jsTruthy = False, strictVariables = False, strictFilters = False\<rparr>"

datatype tag_class = UpperTagClass | MustIncludeEachTagClass | SectionTagClass | AssignTagClass | CaptureTagClass

record liquid =
  options :: liquid_options
  filters :: "string \<rightharpoonup> filter_impl"
  tags :: "string \<rightharpoonup> tag_class"

subsection \<open>Context\<close>

text \<open>
  The evaluation context: a stack of scope objects, the bottom one first, above the
  \<open>environments\<close> object, which is the very object handed to \<open>parseAndRender\<close>.
\<close>

record Context =
  scopes :: "(string \<times> jsval) list list"
  environments :: "(string \<times> jsval) list"

datatype scope_ref = ScopeAt nat | Environments | Globals

definition Context_new :: "(string \<times> jsval) list \<Rightarrow> Context" where
  "Context_new env = \<lparr>scopes = [[]], environments = env\<rparr>"

definition has_key :: "string \<Rightarrow> (string \<times> jsval) list \<Rightarrow> bool" where
  "has_key key obj = (key \<in> fst ` set obj)"

definition get_property :: "(string \<times> jsval) list \<Rightarrow> string \<Rightarrow> jsval" where
  "get_property obj key = (case map_of obj key of Some v \<Rightarrow> v | None \<Rightarrow> Undefined)"

text \<open>\<open>findScope\<close>: the topmost scope that has the key, else the environments, else the (empty) globals.\<close>

definition findScope :: "string \<Rightarrow> Context \<Rightarrow> scope_ref" where
  "findScope key ctx =
     (case find (\<lambda>i. has_key key (scopes ctx ! i)) (rev [0..<length (scopes ctx)]) of
        Some i \<Rightarrow> ScopeAt i
      | None \<Rightarrow> if has_key key (environments ctx) then Environments else Globals)"

definition read_ref :: "scope_ref \<Rightarrow> string \<Rightarrow> Context \<Rightarrow> jsval" where
  "read_ref r key ctx =
     (case r of
        ScopeAt i \<Rightarrow> get_property (scopes ctx ! i) key
      | Environments \<Rightarrow> get_property (environments ctx) key
      | Globals \<Rightarrow> Undefined)"

definition ctx_get :: "string \<Rightarrow> Context \<Rightarrow> jsval" where
  "ctx_get key ctx = read_ref (findScope key ctx) key ctx"

definition ctx_push :: "(string \<times> jsval) list \<Rightarrow> Context \<Rightarrow> Context" where
  "ctx_push scope ctx = ctx\<lparr>scopes := scopes ctx @ [scope]\<rparr>"

text \<open>\<open>ctx.bottom()[key] = v\<close>\<close>

definition ctx_bottom_set :: "string \<Rightarrow> jsval \<Rightarrow> Context \<Rightarrow> Context" where
  "ctx_bottom_set key v ctx =
     (case scopes ctx of [] \<Rightarrow> ctx | b # ss \<Rightarrow> ctx\<lparr>scopes := AList.update key v b # ss\<rparr>)"

text \<open>
  A change made inside the object that a scope binds under \<open>key\<close>: the binding stays,
  the object it holds has a new state.
\<close>

definition write_ref :: "scope_ref \<Rightarrow> string \<Rightarrow> jsval \<Rightarrow> Context \<Rightarrow> Context" where
  "write_ref r key v ctx =
     (case r of
        ScopeAt i \<Rightarrow> ctx\<lparr>scopes := (scopes ctx)[i := AList.update key v (scopes ctx ! i)]\<rparr>
      | Environments \<Rightarrow> ctx\<lparr>environments := AList.update key v (environments ctx)\<rparr>
      | Globals \<Rightarrow> ctx)"

subsection \<open>Evaluating a Value\<close>

fun evalExpr :: "liquid \<Rightarrow> expr \<Rightarrow> Context \<Rightarrow> jsval result" where
  "evalExpr L (Literal v) ctx = Inr v"
| "evalExpr L (Variable x) ctx =
     (if strictVariables (options L) \<and> ctx_get x ctx = Undefined
      then Inl (UndefinedVariableError (''undefined variable: '' @ x))
      else Inr (ctx_get x ctx))"

text \<open>A filter name with no registered implementation passes its input on unchanged.\<close>

definition Filter_render :: "liquid \<Rightarrow> string \<times> expr list \<Rightarrow> jsval \<Rightarrow> Context \<Rightarrow> jsval result" where
  "Filter_render L f val ctx =
     (case sequence (map (\<lambda>a. evalExpr L a ctx) (snd f)) of
        Inl e \<Rightarrow> Inl e
      | Inr argv \<Rightarrow> (case filters L (fst f) of None \<Rightarrow> Inr val | Some handler \<Rightarrow> handler val argv))"

fun Filters_render :: "liquid \<Rightarrow> (string \<times> expr list) list \<Rightarrow> jsval \<Rightarrow> Context \<Rightarrow> jsval result" where
  "Filters_render L [] val ctx = Inr val"
| "Filters_render L (f # fs) val ctx =
     (case Filter_render L f val ctx of Inl e \<Rightarrow> Inl e | Inr val' \<Rightarrow> Filters_render L fs val' ctx)"

fun Value_value :: "liquid \<Rightarrow> Value \<Rightarrow> Context \<Rightarrow> jsval result" where
  "Value_value L (Value initial fs) ctx =
     (case evalExpr L initial ctx of Inl e \<Rightarrow> Inl e | Inr val \<Rightarrow> Filters_render L fs val ctx)"

text \<open>
  Building a Value looks every filter name up: with \<open>strictFilters\<close> an unknown name is a
  parse error, without it the name is accepted.
\<close>

definition Value_new :: "liquid \<Rightarrow> Value \<Rightarrow> Value result" where
  "Value_new L v =
     (case v of Value initial fs \<Rightarrow>
        (case find (\<lambda>f. filters L (fst f) = None) fs of
           Some f \<Rightarrow> if strictFilters (options L) then Inl (ParseError (''undefined filter: '' @ fst f)) else Inr v
         | None \<Rightarrow> Inr v))"

subsection \<open>Emitters\<close>

text \<open>
  The library's \<open>SimpleEmitter\<close> appends \<open>stringify(html)\<close>: a string as it is, \<open>null\<close> and
  \<open>undefined\<close> as nothing, an array as its stringified elements one after the other.
  The section tag's \<open>CaptureEmitter\<close> appends with \<open>this.buffer += html\<close>.
\<close>

datatype emitter = SimpleEmitter | CaptureEmitter

fun stringify :: "jsval \<Rightarrow> string result"
  and stringify_list :: "jsval list \<Rightarrow> string result" where
  "stringify (Str s) = Inr s"
| "stringify Undefined = Inr []"
| "stringify Null = Inr []"
| "stringify (Arr xs) = stringify_list xs"
| "stringify (Bool b) = String (Bool b)"
| "stringify (Num i) = String (Num i)"
| "stringify (Obj kvs) = String (Obj kvs)"
| "stringify_list [] = Inr []"
| "stringify_list (x # xs) =
     (case stringify x of Inl e \<Rightarrow> Inl e
      | Inr s \<Rightarrow> (case stringify_list xs of Inl e \<Rightarrow> Inl e | Inr t \<Rightarrow> Inr (s @ t)))"

definition emitter_write :: "emitter \<Rightarrow> string \<Rightarrow> jsval \<Rightarrow> string result" where
  "emitter_write em buffer html =
     (case em of
        SimpleEmitter \<Rightarrow> map_sum id (\<lambda>s. buffer @ s) (stringify html)
      | CaptureEmitter \<Rightarrow> map_sum id (\<lambda>s. buffer @ s) (String html))"

subsection \<open>Render metadata\<close>

definition metaKey :: string where
  "metaKey = ''__promptengMeta''"

text \<open>\<open>{ constraints: [], sections: {} }\<close>\<close>

definition newMeta :: jsval where
  "newMeta = Obj [(''constraints'', Arr []), (''sections'', Obj [])]"

text \<open>\<open>{ type: 'must_include_each', words }\<close>\<close>

definition Constraint :: "string list \<Rightarrow> jsval" where
  "Constraint words = Obj [(''type'', Str ''must_include_each''), (''words'', Arr (map Str words))]"

text \<open>
  \<open>let meta = ctx.get(['__promptengMeta']); if (!meta) { meta = {...}; ctx.push({ __promptengMeta: meta }) }\<close>:
  afterwards \<open>meta\<close> is the object that the scope found by \<open>findScope\<close> binds.
\<close>

definition ensureMeta :: "Context \<Rightarrow> Context" where
  "ensureMeta ctx = (if truthy (ctx_get metaKey ctx) then ctx else ctx_push [(metaKey, newMeta)] ctx)"

text \<open>
  \<open>meta.constraints.push(c)\<close>, as the new state of \<open>meta\<close>. Only an object whose
  \<open>constraints\<close> is an array has a \<open>push\<close> to call.
\<close>

definition constraints_push :: "jsval \<Rightarrow> jsval \<Rightarrow> jsval result" where
  "constraints_push meta c =
     (case meta of
        Obj kvs \<Rightarrow>
          (case map_of kvs ''constraints'' of
             Some (Arr cs) \<Rightarrow> Inr (Obj (AList.update ''constraints'' (Arr (cs @ [c])) kvs))
           | Some (Obj ps) \<Rightarrow> Inl (TypeError ''meta.constraints.push is not a function'')
           | Some (Str s) \<Rightarrow> Inl (TypeError ''meta.constraints.push is not a function'')
           | Some (Num i) \<Rightarrow> Inl (TypeError ''meta.constraints.push is not a function'')
           | Some (Bool b) \<Rightarrow> Inl (TypeError ''meta.constraints.push is not a function'')
           | _ \<Rightarrow> Inl (TypeError ''Cannot read properties of undefined (reading push)''))
      | _ \<Rightarrow> Inl (TypeError ''Cannot read properties of undefined (reading push)''))"

text \<open>
  \<open>obj[name] = v\<close> on a plain object: the name \<open>__proto__\<close> is the prototype accessor,
  which ignores a string, so no property is made.
\<close>

definition set_property :: "string \<Rightarrow> jsval \<Rightarrow> (string \<times> jsval) list \<Rightarrow> (string \<times> jsval) list" where
  "set_property name v obj = (if name = ''__proto__'' then obj else AList.update name v obj)"

text \<open>
  \<open>meta.sections[name] = buffer\<close>, as the new state of \<open>meta\<close>. The class body is strict
  code: a write through \<open>undefined\<close>, \<open>null\<close> or a primitive throws. An array in the
  place of \<open>sections\<close> would take a named property, which no \<open>Arr\<close> value can show; the
  embedding reports that case as \<open>Unsupported\<close>.
\<close>

definition sections_set :: "jsval \<Rightarrow> string \<Rightarrow> string \<Rightarrow> jsval result" where
  "sections_set meta name buffer =
     (case meta of
        Obj kvs \<Rightarrow>
          (case map_of kvs ''sections'' of
             Some (Obj ss) \<Rightarrow> Inr (Obj (AList.update ''sections'' (Obj (set_property name (Str buffer) ss)) kvs))
           | Some (Arr xs) \<Rightarrow> Inl (Unsupported ''named property on an array'')
           | Some (Str s) \<Rightarrow> Inl (TypeError ''Cannot create property on string'')
           | Some (Num i) \<Rightarrow> Inl (TypeError ''Cannot create property on number'')
           | Some (Bool b) \<Rightarrow> Inl (TypeError ''Cannot create property on boolean'')
           | _ \<Rightarrow> Inl (TypeError ''Cannot set properties of undefined''))
      | _ \<Rightarrow> Inl (TypeError ''Cannot set properties of undefined''))"

subsection \<open>Tokens and templates\<close>

text \<open>
  A tag token has its name, its argument text, and the Value that the library's
  \<open>new Value(tagToken.args, liquid)\<close> reads from that text.
\<close>

datatype token = HTMLToken string | OutputToken Value | TagToken string string Value

datatype template =
    HTML string
  | Output Value
  | UpperTag Value
  | MustIncludeEachTag Value
  | SectionTag string "template list"
  | AssignTag string Value
  | CaptureTag string "template list"

fun getText :: "token \<Rightarrow> string" where
  "getText (TagToken name args v) = ''{% '' @ name @ (if args = [] then [] else '' '' @ args) @ '' %}''"
| "getText (HTMLToken s) = s"
| "getText (OutputToken v) = ''{{ }}''"

fun token_args :: "token \<Rightarrow> string" where
  "token_args (TagToken name args v) = args"
| "token_args t = []"

fun isTagNamed :: "string \<Rightarrow> token \<Rightarrow> bool" where
  "isTagNamed name (TagToken n args v) = (n = name)"
| "isTagNamed name t = False"

subsection \<open>Rendering the tags\<close>

text \<open>\<open>html && emitter.write(html)\<close> on the string a tag returns.\<close>

definition write_returned :: "emitter \<Rightarrow> string \<Rightarrow> string \<Rightarrow> string result" where
  "write_returned em buffer html = (if html \<noteq> [] then emitter_write em buffer (Str html) else Inr buffer)"

definition UpperTag_render :: "liquid \<Rightarrow> Value \<Rightarrow> Context \<Rightarrow> string result" where
  "UpperTag_render L v ctx =
     (case Value_value L v ctx of Inl e \<Rightarrow> Inl e | Inr str \<Rightarrow> map_sum id toUpperCase (String str))"

definition words_of :: "jsval \<Rightarrow> string list result" where
  "words_of raw =
     (case raw of
        Arr xs \<Rightarrow> sequence (map String xs)
      | Str s \<Rightarrow> Inr (filter (\<lambda>w. w \<noteq> []) (map trim (split_comma s)))
      | _ \<Rightarrow> Inr [])"

definition sentence :: "string list \<Rightarrow> string" where
  "sentence words =
     (if words \<noteq> [] then ''IMPORTANT: You MUST use EACH of these words at least once: '' @ join_strings '', '' words @ ''.''
      else [])"

definition MustIncludeEachTag_render :: "liquid \<Rightarrow> Value \<Rightarrow> Context \<Rightarrow> string result \<times> Context" where
  "MustIncludeEachTag_render L v ctx =
     (case Value_value L v ctx of
        Inl e \<Rightarrow> (Inl e, ctx)
      | Inr raw \<Rightarrow>
          (case words_of raw of
             Inl e \<Rightarrow> (Inl e, ctx)
           | Inr words \<Rightarrow>
               (let ctx1 = ensureMeta ctx;
                    r = findScope metaKey ctx1
                in case constraints_push (read_ref r metaKey ctx1) (Constraint words) of
                     Inl e \<Rightarrow> (Inl e, ctx1)
                   | Inr meta \<Rightarrow> (Inr (sentence words), write_ref r metaKey meta ctx1))))"

text \<open>The variable names that a Value reads.\<close>

fun expr_names :: "expr \<Rightarrow> string list" where
  "expr_names (Literal v) = []"
| "expr_names (Variable x) = [x]"

fun Value_names :: "Value \<Rightarrow> string list" where
  "Value_names (Value initial fs) = expr_names initial @ concat (map (\<lambda>f. concat (map expr_names (snd f))) fs)"

text \<open>
  The embedding holds values, not references. Two names can come to hold one mutable
  object in one way only: an \<open>assign\<close> that binds an object to the metadata name, or
  that reads the metadata object into a variable. Such an \<open>assign\<close> is outside the
  embedding: the run ends there as \<open>Unsupported\<close>.
\<close>

fun is_object :: "jsval \<Rightarrow> bool" where
  "is_object (Obj kvs) = True"
| "is_object v = False"

definition aliases_metadata :: "string \<Rightarrow> Value \<Rightarrow> jsval \<Rightarrow> bool" where
  "aliases_metadata key v val = (is_object val \<and> (key = metaKey \<or> metaKey \<in> set (Value_names v)))"

text \<open>The section name: \<open>name.slice(1, -1)\<close> when it starts and ends with the same quote.\<close>

definition section_name :: "string \<Rightarrow> string" where
  "section_name nameArg =
     (if nameArg \<noteq> [] \<and>
         ((hd nameArg = CHR 0x22 \<and> last nameArg = CHR 0x22) \<or> (hd nameArg = CHR 0x27 \<and> last nameArg = CHR 0x27))
      then butlast (tl nameArg) else nameArg)"

text \<open>
  The renderer's loop over the templates, with the emitter it was given and that
  emitter's buffer. A run that throws leaves the context as it was at the throw.
\<close>

function (sequential) render_template :: "liquid \<Rightarrow> emitter \<Rightarrow> template \<Rightarrow> string \<Rightarrow> Context \<Rightarrow> string result \<times> Context"
  and renderTemplates :: "liquid \<Rightarrow> emitter \<Rightarrow> template list \<Rightarrow> string \<Rightarrow> Context \<Rightarrow> string result \<times> Context"
  and SectionTag_render :: "liquid \<Rightarrow> string \<Rightarrow> template list \<Rightarrow> Context \<Rightarrow> string result \<times> Context"
  and CaptureTag_render :: "liquid \<Rightarrow> string \<Rightarrow> template list \<Rightarrow> Context \<Rightarrow> string result \<times> Context" where
  "render_template L em (HTML s) buffer ctx = (emitter_write em buffer (Str s), ctx)"
| "render_template L em (Output v) buffer ctx =
     (case Value_value L v ctx of Inl e \<Rightarrow> (Inl e, ctx) | Inr val \<Rightarrow> (emitter_write em buffer val, ctx))"
| "render_template L em (UpperTag v) buffer ctx =
     (case UpperTag_render L v ctx of Inl e \<Rightarrow> (Inl e, ctx) | Inr html \<Rightarrow> (write_returned em buffer html, ctx))"
| "render_template L em (MustIncludeEachTag v) buffer ctx =
     (case MustIncludeEachTag_render L v ctx of
        (Inl e, ctx') \<Rightarrow> (Inl e, ctx')
      | (Inr html, ctx') \<Rightarrow> (write_returned em buffer html, ctx'))"
| "render_template L em (SectionTag nameArg templates) buffer ctx =
     (case SectionTag_render L nameArg templates ctx of
        (Inl e, ctx') \<Rightarrow> (Inl e, ctx')
      | (Inr html, ctx') \<Rightarrow> (write_returned em buffer html, ctx'))"
| "render_template L em (AssignTag key v) buffer ctx =
     (case Value_value L v ctx of
        Inl e \<Rightarrow> (Inl e, ctx)
      | Inr val \<Rightarrow>
          if aliases_metadata key v val then (Inl (Unsupported ''assign shares the metadata object''), ctx)
          else (Inr buffer, ctx_bottom_set key val ctx))"
| "render_template L em (CaptureTag variable templates) buffer ctx =
     (case CaptureTag_render L variable templates ctx of
        (Inl e, ctx') \<Rightarrow> (Inl e, ctx')
      | (Inr html, ctx') \<Rightarrow> (write_returned em buffer html, ctx'))"
| "renderTemplates L em [] buffer ctx = (Inr buffer, ctx)"
| "renderTemplates L em (tpl # tpls) buffer ctx =
     (case render_template L em tpl buffer ctx of
        (Inl e, ctx') \<Rightarrow> (Inl e, ctx')
      | (Inr buffer', ctx') \<Rightarrow> renderTemplates L em tpls buffer' ctx')"
| "SectionTag_render L nameArg templates ctx =
     (let name = section_name nameArg;
          ctx1 = ensureMeta ctx;
          r = findScope metaKey ctx1
      in case renderTemplates L CaptureEmitter templates [] ctx1 of
           (Inl e, ctx2) \<Rightarrow> (Inl e, ctx2)
         | (Inr buffer, ctx2) \<Rightarrow>
             (case sections_set (read_ref r metaKey ctx2) name buffer of
                Inl e \<Rightarrow> (Inl e, ctx2)
              | Inr meta \<Rightarrow> (Inr [], write_ref r metaKey meta ctx2)))"
| "CaptureTag_render L variable templates ctx =
     (case renderTemplates L SimpleEmitter templates [] ctx of
        (Inl e, ctx') \<Rightarrow> (Inl e, ctx')
      | (Inr html, ctx') \<Rightarrow> (Inr [], ctx_bottom_set variable (Str html) ctx'))"
  by pat_completeness auto
termination
  by (relation "measure (\<lambda>x. case x of
        Inl (Inl (L, em, t, b, c)) \<Rightarrow> 2 * size t
      | Inl (Inr (L, em, ts, b, c)) \<Rightarrow> 2 * size_list size ts
      | Inr (Inl (L, n, ts, c)) \<Rightarrow> 2 * size_list size ts + 1
      | Inr (Inr (L, n, ts, c)) \<Rightarrow> 2 * size_list size ts + 1)") auto

subsection \<open>Parsing\<close>

text \<open>
  The parser shifts tokens off one shared array; a tag's constructor receives the
  remaining tokens and consumes those of its block. Here each step returns the tokens
  it left. The fuel bounds the depth of the calls; \<open>parse\<close> supplies enough of it.
\<close>

definition UpperTag_new :: "liquid \<Rightarrow> token \<Rightarrow> token list \<Rightarrow> (template \<times> token list) result" where
  "UpperTag_new L tagToken remainTokens =
     (case tagToken of
        TagToken name args v \<Rightarrow> (case Value_new L v of Inl e \<Rightarrow> Inl e | Inr v' \<Rightarrow> Inr (UpperTag v', remainTokens))
      | _ \<Rightarrow> Inl (ParseError ''not a tag''))"

definition MustIncludeEachTag_new :: "liquid \<Rightarrow> token \<Rightarrow> token list \<Rightarrow> (template \<times> token list) result" where
  "MustIncludeEachTag_new L tagToken remainTokens =
     (case tagToken of
        TagToken name args v \<Rightarrow> (case Value_new L v of Inl e \<Rightarrow> Inl e | Inr v' \<Rightarrow> Inr (MustIncludeEachTag v', remainTokens))
      | _ \<Rightarrow> Inl (ParseError ''not a tag''))"

text \<open>\<open>assign key = value\<close>: the key is the text before the equals sign.\<close>

definition AssignTag_new :: "liquid \<Rightarrow> token \<Rightarrow> token list \<Rightarrow> (template \<times> token list) result" where
  "AssignTag_new L tagToken remainTokens =
     (case tagToken of
        TagToken name args v \<Rightarrow>
          (let key = trim (takeWhile (\<lambda>c. c \<noteq> CHR ''='') args)
           in if key = [] \<or> CHR ''='' \<notin> set args then Inl (ParseError ''illegal assign'')
              else (case Value_new L v of Inl e \<Rightarrow> Inl e | Inr v' \<Rightarrow> Inr (AssignTag key v', remainTokens)))
      | _ \<Rightarrow> Inl (ParseError ''not a tag''))"

function (sequential) parseToken :: "nat \<Rightarrow> liquid \<Rightarrow> token \<Rightarrow> token list \<Rightarrow> (template \<times> token list) result"
  and parseStream :: "nat \<Rightarrow> liquid \<Rightarrow> string \<Rightarrow> token \<Rightarrow> token list \<Rightarrow> (template list \<times> token list) result"
  and SectionTag_new :: "nat \<Rightarrow> liquid \<Rightarrow> token \<Rightarrow> token list \<Rightarrow> (template \<times> token list) result"
  and CaptureTag_new :: "nat \<Rightarrow> liquid \<Rightarrow> token \<Rightarrow> token list \<Rightarrow> (template \<times> token list) result" where
  "parseToken 0 L token remainTokens = Inl OutOfFuel"
| "parseToken (Suc n) L (HTMLToken s) remainTokens = Inr (HTML s, remainTokens)"
| "parseToken (Suc n) L (OutputToken v) remainTokens =
     (case Value_new L v of Inl e \<Rightarrow> Inl e | Inr v' \<Rightarrow> Inr (Output v', remainTokens))"
| "parseToken (Suc n) L (TagToken name args v) remainTokens =
     (case tags L name of
        None \<Rightarrow> Inl (ParseError (''tag '' @ [CHR 0x22] @ name @ [CHR 0x22] @ '' not found''))
      | Some UpperTagClass \<Rightarrow> UpperTag_new L (TagToken name args v) remainTokens
      | Some MustIncludeEachTagClass \<Rightarrow> MustIncludeEachTag_new L (TagToken name args v) remainTokens
      | Some SectionTagClass \<Rightarrow> SectionTag_new n L (TagToken name args v) remainTokens
      | Some AssignTagClass \<Rightarrow> AssignTag_new L (TagToken name args v) remainTokens
      | Some CaptureTagClass \<Rightarrow> CaptureTag_new n L (TagToken name args v) remainTokens)"
| "parseStream 0 L endName tagToken tokens = Inl OutOfFuel"
| "parseStream (Suc n) L endName tagToken [] = Inl (ParseError (''tag '' @ getText tagToken @ '' not closed''))"
| "parseStream (Suc n) L endName tagToken (token # tokens) =
     (if isTagNamed endName token then Inr ([], tokens)
      else (case parseToken n L token tokens of
              Inl e \<Rightarrow> Inl e
            | Inr (tpl, rest) \<Rightarrow>
                (case parseStream n L endName tagToken rest of
                   Inl e \<Rightarrow> Inl e
                 | Inr (tpls, rest') \<Rightarrow> Inr (tpl # tpls, rest'))))"
| "SectionTag_new n L tagToken remainTokens =
     (case parseStream n L ''endsection'' tagToken remainTokens of
        Inl e \<Rightarrow> Inl e
      | Inr (templates, rest) \<Rightarrow> Inr (SectionTag (trim (token_args tagToken)) templates, rest))"
| "CaptureTag_new n L tagToken remainTokens =
     (if trim (token_args tagToken) = [] then Inl (ParseError ''invalid capture name'')
      else (case parseStream n L ''endcapture'' tagToken remainTokens of
              Inl e \<Rightarrow> Inl e
            | Inr (templates, rest) \<Rightarrow> Inr (CaptureTag (trim (token_args tagToken)) templates, rest)))"
  by pat_completeness auto
termination
  by (relation "measure (\<lambda>x. case x of
        Inl (Inl (n, L, t, ts)) \<Rightarrow> 2 * n + 1
      | Inl (Inr (n, L, e, t, ts)) \<Rightarrow> 2 * n + 1
      | Inr (Inl (n, L, t, ts)) \<Rightarrow> 2 * n + 2
      | Inr (Inr (n, L, t, ts)) \<Rightarrow> 2 * n + 2)") auto

fun parseTokens :: "nat \<Rightarrow> liquid \<Rightarrow> token list \<Rightarrow> template list result" where
  "parseTokens 0 L tokens = Inl OutOfFuel"
| "parseTokens (Suc n) L [] = Inr []"
| "parseTokens (Suc n) L (token # tokens) =
     (case parseToken n L token tokens of
        Inl e \<Rightarrow> Inl e
      | Inr (tpl, rest) \<Rightarrow> (case parseTokens n L rest of Inl e \<Rightarrow> Inl e | Inr tpls \<Rightarrow> Inr (tpl # tpls)))"

definition parse :: "liquid \<Rightarrow> token list \<Rightarrow> template list result" where
  "parse L tokens = parseTokens (2 * length tokens + 1) L tokens"

text \<open>
  \<open>parseAndRender(template, scope)\<close>: the text, or the error thrown, and the state of the
  scope object after the call.
\<close>

definition parseAndRender :: "liquid \<Rightarrow> token list \<Rightarrow> (string \<times> jsval) list \<Rightarrow> string result \<times> (string \<times> jsval) list" where
  "parseAndRender L tokens scope =
     (case parse L tokens of
        Inl e \<Rightarrow> (Inl e, scope)
      | Inr templates \<Rightarrow>
          (case renderTemplates L SimpleEmitter templates [] (Context_new scope) of
             (r, ctx) \<Rightarrow> (r, environments ctx)))"

section \<open>TemplateParser\<close>

definition registerFilter :: "string \<Rightarrow> filter_impl \<Rightarrow> liquid \<Rightarrow> liquid" where
  "registerFilter name fn L = L\<lparr>filters := (filters L)(name \<mapsto> fn)\<rparr>"

definition registerTag :: "string \<Rightarrow> tag_class \<Rightarrow> liquid \<Rightarrow> liquid" where
  "registerTag name impl L = L\<lparr>tags := (tags L)(name \<mapsto> impl)\<rparr>"

text \<open>
  \<open>new Liquid(opts)\<close>: the options given override the defaults. The library's own filter
  table is the parameter \<open>builtins\<close>; of its own tags, \<open>assign\<close> and \<open>capture\<close> are here.
\<close>

definition Liquid_new :: "(liquid_options \<Rightarrow> liquid_options) \<Rightarrow> (string \<rightharpoonup> filter_impl) \<Rightarrow> liquid" where
  "Liquid_new opts builtins =
     \<lparr>options = opts defaultOptions,
      filters = builtins,
      tags = [''assign'' \<mapsto> AssignTagClass, ''capture'' \<mapsto> CaptureTagClass]\<rparr>"

text \<open>The constructor: the engine with its options, then the registrations in source order.\<close>

definition TemplateParser_new :: "(string \<rightharpoonup> filter_impl) \<Rightarrow> liquid" where
  "TemplateParser_new builtins =
     (registerTag ''section'' SectionTagClass
     (registerTag ''must_include_each'' MustIncludeEachTagClass
     (registerFilter ''sort'' filter_sort
     (registerFilter ''compact'' filter_compact
     (registerFilter ''upper'' filter_upper
     (registerFilter ''lower'' filter_lower
     (registerFilter ''length'' filter_length
     (registerFilter ''default'' filter_default
     (registerFilter ''uniq'' filter_uniq
     (registerFilter ''join'' filter_join
     (registerTag ''upper'' UpperTagClass
     (Liquid_new (\<lambda>d. d\<lparr>cache := True, jsTruthy := True, strictVariables := False\<rparr>) builtins))))))))))))"

text \<open>
  \<open>render(template, variables)\<close> hands the caller's object itself to the engine: the
  second component is that object after the call.
\<close>

definition render_run :: "liquid \<Rightarrow> token list \<Rightarrow> (string \<times> jsval) list \<Rightarrow> string result \<times> (string \<times> jsval) list" where
  "render_run engine template variables = parseAndRender engine template variables"


text \<open>
  \<open>renderWithMeta(template, variables)\<close> builds a scope object of its own,
  \<open>{ ...variables, __promptengMeta: meta }\<close>, and returns the text with \<open>meta\<close>, the object
  that scope binds. The second component is the scope after the call: each of its
  bindings but \<open>meta\<close> is an object shared with the caller's \<open>variables\<close>.
\<close>

definition renderWithMeta_run :: "liquid \<Rightarrow> token list \<Rightarrow> (string \<times> jsval) list \<Rightarrow> (string \<times> jsval) result \<times> (string \<times> jsval) list" where
  "renderWithMeta_run engine template variables =
     (let meta = newMeta;
          scope = AList.update metaKey meta variables
      in case parseAndRender engine template scope of
           (Inl e, scope') \<Rightarrow> (Inl e, scope')
         | (Inr text, scope') \<Rightarrow> (Inr (text, get_property scope' metaKey), scope'))"

definition renderWithMeta :: "liquid \<Rightarrow> token list \<Rightarrow> (string \<times> jsval) list \<Rightarrow> (string \<times> jsval) result" where
  "renderWithMeta engine template variables = fst (renderWithMeta_run engine template variables)"


definition constraints :: "jsval \<Rightarrow> jsval" where
  "constraints meta = (case meta of Obj kvs \<Rightarrow> get_property kvs ''constraints'' | _ \<Rightarrow> Undefined)"

section \<open>Notions used in the properties\<close>

text \<open>A value that converts to a string: no object with an own \<open>toString\<close> property is reached.\<close>

fun no_toString :: "jsval \<Rightarrow> bool" where
  "no_toString (Arr xs) = list_all no_toString xs"
| "no_toString (Obj kvs) = (''toString'' \<notin> fst ` set kvs)"
| "no_toString v = True"















section \<open>Properties\<close>

subsection \<open>String conversion\<close>

lemma String_no_toString:
  "no_toString v \<Longrightarrow> \<exists>s. String v = Inr s"
  "no_toString v \<Longrightarrow> \<exists>s. String_element v = Inr s"
  "list_all no_toString vs \<Longrightarrow> \<exists>ss. String_elements vs = Inr ss"
  by (induction v and v and vs rule: String_String_element_String_elements.induct) auto

lemma sequence_String:
  "list_all no_toString vs \<Longrightarrow> \<exists>ss. sequence (map String vs) = Inr ss"
proof (induction vs)
  case Nil
  then show ?case by simp
next
  case (Cons v vs)
  then obtain s ss where "String v = Inr s" "sequence (map String vs) = Inr ss"
    using String_no_toString(1) by fastforce
  then show ?case by simp
qed

lemma Array_join_total:
  "list_all no_toString xs \<Longrightarrow> no_toString sep \<Longrightarrow> \<exists>s. Array_join xs sep = Inr s"
  using String_no_toString(1)[of sep] String_no_toString(3)[of xs]
  by (auto simp: Array_join_def)

lemma Array_sort_total:
  assumes "list_all no_toString xs"
  shows "\<exists>ys. Array_sort xs = Inr ys"
proof -
  from assms have "list_all no_toString (filter (\<lambda>x. x \<noteq> Undefined) xs)"
    by (simp add: list_all_iff)
  from sequence_String[OF this] show ?thesis
    by (auto simp: Array_sort_def Let_def)
qed

lemma no_toString_nullish: "no_toString v \<Longrightarrow> no_toString (nullish_empty v)"
  by (simp add: nullish_empty_def)

subsection \<open>The filters\<close>

text \<open>
  C9, as the code has it. The filters \<open>default\<close>, \<open>uniq\<close>, \<open>length\<close> and \<open>compact\<close> return a
  value on every input and every argument list. The filters \<open>join\<close>, \<open>lower\<close>, \<open>upper\<close>
  and \<open>sort\<close> convert to strings, and return a value on every input in which no object
  with an own \<open>toString\<close> property is reached (for \<open>join\<close>, in the separator as well):
  \<open>null\<close>, \<open>undefined\<close>, booleans, numbers, strings, other objects, and arrays of these.
\<close>

theorem filters_total:
  "(\<exists>r. filter_default v args = Inr r) \<and>
   (\<exists>r. filter_uniq v args = Inr r) \<and>
   (\<exists>r. filter_length v args = Inr r) \<and>
   (\<exists>r. filter_compact v args = Inr r) \<and>
   (no_toString v \<and> no_toString (arg args 0) \<longrightarrow> (\<exists>r. filter_join v args = Inr r)) \<and>
   (no_toString v \<longrightarrow> (\<exists>r. filter_lower v args = Inr r)) \<and>
   (no_toString v \<longrightarrow> (\<exists>r. filter_upper v args = Inr r)) \<and>
   (no_toString v \<longrightarrow> (\<exists>r. filter_sort v args = Inr r))"
proof -
  have d: "\<exists>r. filter_default v args = Inr r" by (simp add: filter_default_def)
  have u: "\<exists>r. filter_uniq v args = Inr r" by (cases v) (simp_all add: filter_uniq_def)
  have l: "\<exists>r. filter_length v args = Inr r" by (cases v) (simp_all add: filter_length_def)
  have c: "\<exists>r. filter_compact v args = Inr r" by (cases v) (simp_all add: filter_compact_def)
  have j: "\<exists>r. filter_join v args = Inr r" if "no_toString v" "no_toString (arg args 0)"
  proof (cases v)
    case (Arr xs)
    with that have "list_all no_toString xs" by simp
    moreover have "no_toString (if arg args 0 = Undefined then Str '', '' else arg args 0)"
      using that(2) by simp
    ultimately obtain s where "Array_join xs (if arg args 0 = Undefined then Str '', '' else arg args 0) = Inr s"
      using Array_join_total by blast
    with Arr show ?thesis by (simp add: filter_join_def)
  qed (use that String_no_toString(1)[of "nullish_empty v"] in \<open>auto simp: filter_join_def nullish_empty_def\<close>)
  have lo: "\<exists>r. filter_lower v args = Inr r" if "no_toString v"
    using String_no_toString(1)[OF no_toString_nullish[OF that]] by (auto simp: filter_lower_def)
  have up: "\<exists>r. filter_upper v args = Inr r" if "no_toString v"
    using String_no_toString(1)[OF no_toString_nullish[OF that]] by (auto simp: filter_upper_def)
  have so: "\<exists>r. filter_sort v args = Inr r" if "no_toString v"
  proof (cases v)
    case (Arr xs)
    with that have "list_all no_toString xs" by simp
    from Array_sort_total[OF this] Arr show ?thesis by (auto simp: filter_sort_def)
  qed (simp_all add: filter_sort_def)
  from d u l c j lo up so show ?thesis by blast
qed

theorem filters_total_witness:
  "no_toString (Arr [Str ''b'', Num 1]) \<and> no_toString (arg [Str ''; ''] 0) \<and>
   (\<exists>r. filter_join (Arr [Str ''b'', Num 1]) [Str ''; ''] = Inr r) \<and>
   (\<exists>r. filter_lower (Arr [Str ''b'', Num 1]) [Str ''; ''] = Inr r) \<and>
   (\<exists>r. filter_upper (Arr [Str ''b'', Num 1]) [Str ''; ''] = Inr r) \<and>
   (\<exists>r. filter_sort (Arr [Str ''b'', Num 1]) [Str ''; ''] = Inr r)"
  using filters_total[of "Arr [Str ''b'', Num 1]" "[Str ''; '']"] by (simp add: arg_def)

text \<open>
  The claim as stated fails: \<open>lower\<close> on the object \<open>{"toString": "x"}\<close> throws.
\<close>

theorem filter_lower_throws:
  "filter_lower (Obj [(''toString'', Str ''x'')]) [] = Inl (TypeError ''Cannot convert object to primitive value'')"
  by (simp add: filter_lower_def nullish_empty_def)

subsection \<open>The context\<close>


lemma has_key_Nil: "\<not> has_key k []"
  by (simp add: has_key_def)

lemma has_key_update: "has_key k' (AList.update k v obj) = (k' = k \<or> has_key k' obj)"
  by (auto simp: has_key_def dom_update)

lemma get_property_update: "get_property (AList.update k v obj) k' = (if k' = k then v else get_property obj k')"
  by (simp add: get_property_def update_conv')




lemma findScope_Environments:
  "findScope key ctx = Environments \<Longrightarrow> has_key key (environments ctx)"
  by (auto simp: findScope_def split: option.splits if_splits)













subsection \<open>The constraint directive\<close>







text \<open>
  It fails as well when the name is bound to a truthy value that is no metadata object,
  here in the variables given to \<open>render\<close>.
\<close>

lemma must_include_each_shadowed:
  "render_run (TemplateParser_new Map.empty)
     [TagToken ''must_include_each'' ''words'' (Value (Variable ''words'') [])]
     [(''words'', Str ''a''), (''__promptengMeta'', Bool True)]
   = (Inl (TypeError ''Cannot read properties of undefined (reading push)''),
      [(''words'', Str ''a''), (''__promptengMeta'', Bool True)])"
  by code_simp

subsection \<open>The metadata that renderWithMeta returns\<close>

text \<open>
  C10. \<open>renderWithMeta\<close> binds the metadata object it created into the scope after the
  caller's variables: whatever value \<open>x\<close> the variables bind to \<open>__promptengMeta\<close>, the
  call returns the same text and metadata as without that binding, and the name reads
  as the new object in the context the engine starts from.
\<close>

theorem renderWithMeta_own_metadata:
  "renderWithMeta E tokens (AList.update metaKey x variables) = renderWithMeta E tokens variables \<and>
   ctx_get metaKey (Context_new (AList.update metaKey newMeta (AList.update metaKey x variables))) = newMeta"
  by (simp add: renderWithMeta_def renderWithMeta_run_def ctx_get_def findScope_def Context_new_def
      has_key_update has_key_Nil read_ref_def get_property_update)

subsection \<open>The parser\<close>


lemma Value_new_Inr: "Value_new L v = Inr v' \<Longrightarrow> v' = v"
  by (cases v) (auto simp: Value_new_def split: option.splits if_splits)

lemma simple_tag_rest:
  "UpperTag_new L t ts = Inr (tpl, rest) \<Longrightarrow> rest = ts"
  "MustIncludeEachTag_new L t ts = Inr (tpl, rest) \<Longrightarrow> rest = ts"
  "AssignTag_new L t ts = Inr (tpl, rest) \<Longrightarrow> rest = ts"
  by (auto simp: UpperTag_new_def MustIncludeEachTag_new_def AssignTag_new_def Let_def
      split: token.splits sum.splits if_splits)


text \<open>What a parsing step leaves is a suffix of what it was given.\<close>

lemma parse_suffix_aux:
  "(\<forall>t ts tpl rest. parseToken n L t ts = Inr (tpl, rest) \<longrightarrow> suffix rest ts) \<and>
   (\<forall>en tt ts tpls rest. parseStream n L en tt ts = Inr (tpls, rest) \<longrightarrow> suffix rest ts)"
proof (induction n)
  case 0
  show ?case by simp
next
  case (Suc n)
  have T: "suffix rest ts" if "parseToken (Suc n) L t ts = Inr (tpl, rest)" for t ts tpl rest
  proof (cases t)
    case (HTMLToken s)
    with that show ?thesis by simp
  next
    case (OutputToken v)
    with that show ?thesis by (auto split: sum.splits)
  next
    case (TagToken name args v)
    show ?thesis
    proof (cases "tags L name")
      case None
      with that TagToken show ?thesis by simp
    next
      case (Some c)
      with that TagToken Suc show ?thesis
        by (cases c) (auto split: sum.splits if_splits dest: simple_tag_rest)
    qed
  qed
  have S: "suffix rest ts" if "parseStream (Suc n) L en tt ts = Inr (tpls, rest)" for en tt ts tpls rest
  proof (cases ts)
    case Nil
    with that show ?thesis by simp
  next
    case (Cons x xs)
    show ?thesis
    proof (cases "isTagNamed en x")
      case True
      with that Cons show ?thesis by (simp add: suffix_ConsI)
    next
      case False
      with that Cons obtain tpl r1 tpls' where
        a: "parseToken n L x xs = Inr (tpl, r1)" and b: "parseStream n L en tt r1 = Inr (tpls', rest)"
        by (auto split: sum.splits)
      from Suc a b have "suffix r1 xs" "suffix rest r1" by blast+
      with Cons show ?thesis by (meson suffix_ConsI suffix_order.trans)
    qed
  qed
  from T S show ?case by blast
qed


lemma parseStream_suffix: "parseStream n L en tt ts = Inr (tpls, rest) \<Longrightarrow> suffix rest ts"
  using parse_suffix_aux by blast





































subsection \<open>The caller's variables\<close>




















subsection \<open>Sections\<close>
















text \<open>A block named \<open>__proto__\<close> leaves no section: the write goes to the prototype accessor.\<close>

lemma section_named_proto:
  "renderWithMeta (TemplateParser_new Map.empty)
     [TagToken ''section'' ''__proto__'' (Value (Literal Undefined) []), HTMLToken ''x'',
      TagToken ''endsection'' [] (Value (Literal Undefined) [])] []
     = Inr ([], Obj [(''constraints'', Arr []), (''sections'', Obj [])])"
  by code_simp

subsection \<open>render and renderWithMeta side by side\<close>
















end
